theory Spec2Isabelle
  imports Main "HOL-Library.Word" "HOL-Library.AList"
begin

section \<open>Python values and exceptions\<close>

text \<open>
  The classifier module of q2-feature-classifier handles pipeline specifications that
  are JSON documents or Python literals of the same shape, keyword arguments, and
  objects of the libraries it wraps. A value is one of: \<open>None\<close>, a bool, an int, a float
  (carried as its 64-bit pattern, never computed with), a str, a list, a tuple, a dict
  with str keys (kept in insertion order, keys distinct), a callable object (a class or
  a function, named), or any other object (a module, an estimator instance, a generator,
  a fitted pipeline), given by the name of its class and its attributes.
\<close>

datatype pyval =
    VNone
  | VBool bool
  | VInt int
  | VFloat "64 word"
  | VStr string
  | VList "pyval list"
  | VTuple "pyval list"
  | VDict "(string \<times> pyval) list"
  | VCallable string
  | VObj string "(string \<times> pyval) list"

text \<open>
  The exceptions of the Python runtime that the module's own statements can raise, the
  JSON parser's decode error, the error of a recursion too deep, and \<open>LibError\<close> for
  whatever else a wrapped library raises.
\<close>

datatype exn =
    KeyError
  | TypeError
  | ValueError
  | AttributeError
  | IndexError
  | JSONDecodeError
  | RecursionError
  | LibError string

text \<open>Sequencing of statements that may raise: the first exception ends the block.\<close>

fun andThen :: "exn + 'a \<Rightarrow> ('a \<Rightarrow> exn + 'b) \<Rightarrow> exn + 'b" where
  "andThen (Inl e) f = Inl e"
| "andThen (Inr x) f = f x"

subsection \<open>The Python operations the module uses\<close>

text \<open>\<open>hash(v)\<close> raises TypeError on a list, a dict, and a tuple holding one.\<close>

fun hashable :: "pyval \<Rightarrow> bool" where
  "hashable (VList xs) = False"
| "hashable (VDict d) = False"
| "hashable (VTuple xs) = list_all hashable xs"
| "hashable v = True"

text \<open>An int or a bool is accepted as a sequence index.\<close>

fun index_of :: "pyval \<Rightarrow> int option" where
  "index_of (VInt i) = Some i"
| "index_of (VBool b) = Some (if b then 1 else 0)"
| "index_of v = None"

text \<open>\<open>xs[i]\<close> on a sequence: a negative index counts from the end, IndexError out of range.\<close>

definition position :: "nat \<Rightarrow> int \<Rightarrow> nat option" where
  "position len i =
     (if 0 \<le> i \<and> i < int len then Some (nat i)
      else if i < 0 \<and> - int len \<le> i then Some (nat (int len + i))
      else None)"

definition seq_index :: "'a list \<Rightarrow> pyval \<Rightarrow> exn + 'a" where
  "seq_index xs k =
     (case index_of k of
        None \<Rightarrow> Inl TypeError
      | Some i \<Rightarrow>
          (case position (length xs) i of
             None \<Rightarrow> Inl IndexError
           | Some j \<Rightarrow> Inr (xs ! j)))"

text \<open>
  \<open>obj[k]\<close>: a dict looks the key up (TypeError on an unhashable key, KeyError on a
  missing one; every key of a dict is a str here); a list, a tuple and a str are indexed;
  nothing else is subscriptable.
\<close>

fun py_getitem :: "pyval \<Rightarrow> pyval \<Rightarrow> exn + pyval" where
  "py_getitem (VDict d) k =
     (if \<not> hashable k then Inl TypeError
      else case k of
             VStr s \<Rightarrow> (case map_of d s of None \<Rightarrow> Inl KeyError | Some v \<Rightarrow> Inr v)
           | _ \<Rightarrow> Inl KeyError)"
| "py_getitem (VList xs) k = seq_index xs k"
| "py_getitem (VTuple xs) k = seq_index xs k"
| "py_getitem (VStr s) k = map_sum id (\<lambda>c. VStr [c]) (seq_index s k)"
| "py_getitem v k = Inl TypeError"

text \<open>\<open>obj.get(k, dflt)\<close>: only a dict has the method.\<close>

fun py_get :: "pyval \<Rightarrow> pyval \<Rightarrow> pyval \<Rightarrow> exn + pyval" where
  "py_get (VDict d) k dflt =
     (if \<not> hashable k then Inl TypeError
      else case k of
             VStr s \<Rightarrow> (case map_of d s of None \<Rightarrow> Inr dflt | Some v \<Rightarrow> Inr v)
           | _ \<Rightarrow> Inr dflt)"
| "py_get v k dflt = Inl AttributeError"

text \<open>\<open>obj[k] = v\<close> on a dict: the key keeps its place if present, else it is appended.\<close>

fun py_setitem :: "pyval \<Rightarrow> pyval \<Rightarrow> pyval \<Rightarrow> exn + pyval" where
  "py_setitem (VDict d) k v =
     (if \<not> hashable k then Inl TypeError
      else case k of
             VStr s \<Rightarrow> Inr (VDict (AList.update s v d))
           | _ \<Rightarrow> Inl TypeError)"
| "py_setitem (VList xs) k v =
     (case index_of k of
        None \<Rightarrow> Inl TypeError
      | Some i \<Rightarrow>
          (case position (length xs) i of
             None \<Rightarrow> Inl IndexError
           | Some j \<Rightarrow> Inr (VList (xs[j := v]))))"
| "py_setitem w k v = Inl TypeError"

text \<open>Iteration: a list and a tuple give their items, a str its characters, a dict its keys.\<close>

fun py_iter :: "pyval \<Rightarrow> exn + pyval list" where
  "py_iter (VList xs) = Inr xs"
| "py_iter (VTuple xs) = Inr xs"
| "py_iter (VStr s) = Inr (map (\<lambda>c. VStr [c]) s)"
| "py_iter (VDict d) = Inr (map (\<lambda>kv. VStr (fst kv)) d)"
| "py_iter v = Inl TypeError"

text \<open>\<open>a, b = v\<close>: ValueError unless \<open>v\<close> yields exactly two items.\<close>

definition unpack2 :: "pyval \<Rightarrow> exn + pyval \<times> pyval" where
  "unpack2 v =
     andThen (py_iter v)
       (\<lambda>xs. case xs of [a, b] \<Rightarrow> Inr (a, b) | _ \<Rightarrow> Inl ValueError)"

text \<open>\<open>f(**v)\<close>: the value must be a mapping with str keys.\<close>

fun py_kwargs :: "pyval \<Rightarrow> exn + (string \<times> pyval) list" where
  "py_kwargs (VDict d) = Inr d"
| "py_kwargs v = Inl TypeError"

text \<open>\<open>s.rsplit('.', 1)\<close>: split at the last dot, if there is one.\<close>

definition rsplit_dot :: "string \<Rightarrow> string list" where
  "rsplit_dot s =
     (let r = rev s; rest = dropWhile (\<lambda>c. c \<noteq> CHR ''.'') r
      in if rest = [] then [s]
         else [rev (tl rest), rev (takeWhile (\<lambda>c. c \<noteq> CHR ''.'') r)])"

text \<open>\<open>callable(v)\<close>.\<close>

fun callable :: "pyval \<Rightarrow> bool" where
  "callable (VCallable n) = True"
| "callable v = False"

section \<open>The wrapped libraries\<close>

text \<open>What \<open>inspect\<close> reports of one parameter: name, kind, default and annotation.\<close>

datatype kind =
  POSITIONAL_ONLY | POSITIONAL_OR_KEYWORD | VAR_POSITIONAL | KEYWORD_ONLY | VAR_KEYWORD

datatype pytype = T_int | T_float | T_bool | T_str | T_other string

text \<open>\<open>Empty\<close> is \<open>inspect.Parameter.empty\<close>, the marker of a parameter with no default.\<close>

datatype pdefault = Empty | Default pyval

record parameter =
  param_name :: string
  param_kind :: kind
  param_default :: pdefault
  param_annotation :: "pytype option"

text \<open>A pandas Series: its values, its index, its name and the name of its index.\<close>

record series =
  s_values :: pyval
  s_index :: pyval
  s_name :: pyval
  s_index_name :: pyval

text \<open>
  The functions of the standard library, scikit-learn, pandas and the sibling module
  \<open>_skl\<close> that the classifier module calls. Their code is not part of the module; each is
  a parameter of the model and may raise. \<open>call_kw\<close> is the call of a loaded class with
  keyword arguments, \<open>predict\<close> returns the pair of sequence ids and classifications,
  \<open>Series data index\<close> is \<open>pd.Series(data, index=index)\<close>, and \<open>deepcopy_raises\<close> is the
  exception, if any, with which \<open>copy.deepcopy\<close> refuses a value.
\<close>

record pylib =
  json_loads :: "pyval \<Rightarrow> exn + pyval"
  json_dumps :: "pyval \<Rightarrow> exn + string"
  import_module :: "string \<Rightarrow> exn + pyval"
  getattr :: "pyval \<Rightarrow> string \<Rightarrow> exn + pyval"
  call_kw :: "pyval \<Rightarrow> (string \<times> pyval) list \<Rightarrow> exn + pyval"
  inspect_signature :: "pyval \<Rightarrow> exn + parameter list"
  Pipeline :: "pyval \<Rightarrow> exn + pyval"
  fit_pipeline :: "pyval \<Rightarrow> pyval \<Rightarrow> pyval \<Rightarrow> (string \<times> pyval) list \<Rightarrow> exn + pyval"
  predict :: "pyval \<Rightarrow> pyval \<Rightarrow> (string \<times> pyval) list \<Rightarrow> exn + pyval \<times> pyval"
  Series :: "pyval \<Rightarrow> pyval \<Rightarrow> exn + series"
  deepcopy_raises :: "pyval \<Rightarrow> exn option"

section \<open>Building a pipeline from a specification\<close>

text \<open>
  \<open>_load_class(classname)\<close>: \<open>module, klass = classname.rsplit('.', 1)\<close>, then the import
  and the attribute lookup. Only a str has \<open>rsplit\<close>; a name with no dot does not unpack.
\<close>

definition load_class :: "pylib \<Rightarrow> pyval \<Rightarrow> exn + pyval" where
  "load_class lib classname =
     (case classname of
        VStr c \<Rightarrow>
          (case rsplit_dot c of
             [module, klass] \<Rightarrow>
               andThen (import_module lib module) (\<lambda>m. getattr lib m klass)
           | _ \<Rightarrow> Inl ValueError)
      | _ \<Rightarrow> Inl AttributeError)"

text \<open>
  The list comprehension of \<open>_pipeline_from_spec\<close>: for each item of \<open>spec['steps']\<close>,
  unpacked as \<open>s, c\<close>, the tuple \<open>(s, _load_class(c)(**spec.get(s, {})))\<close>.
\<close>

fun pipeline_steps :: "pylib \<Rightarrow> pyval \<Rightarrow> pyval list \<Rightarrow> exn + pyval list" where
  "pipeline_steps lib spec [] = Inr []"
| "pipeline_steps lib spec (x # xs) =
     andThen (unpack2 x) (\<lambda>(s, c).
     andThen (load_class lib c) (\<lambda>cls.
     andThen (py_get spec s (VDict [])) (\<lambda>kw.
     andThen (py_kwargs kw) (\<lambda>kwargs.
     andThen (call_kw lib cls kwargs) (\<lambda>inst.
     andThen (pipeline_steps lib spec xs) (\<lambda>rest.
     Inr (VTuple [s, inst] # rest)))))))"

definition pipeline_from_spec :: "pylib \<Rightarrow> pyval \<Rightarrow> exn + pyval" where
  "pipeline_from_spec lib spec =
     andThen (py_getitem spec (VStr ''steps'')) (\<lambda>sv.
     andThen (py_iter sv) (\<lambda>items.
     andThen (pipeline_steps lib spec items) (\<lambda>steps.
     Pipeline lib (VList steps))))"

section \<open>The two fixed actions\<close>

text \<open>The \<open>params\<close> dict that both fitters build from their four tuning arguments.\<close>

definition fitter_params :: "pyval \<Rightarrow> pyval \<Rightarrow> pyval \<Rightarrow> pyval \<Rightarrow> (string \<times> pyval) list" where
  "fitter_params word_length taxonomy_separator taxonomy_depth multioutput =
     [(''word_length'', word_length),
      (''taxonomy_separator'', taxonomy_separator),
      (''taxonomy_depth'', taxonomy_depth),
      (''multioutput'', multioutput)]"

definition fit_classifier ::
  "pylib \<Rightarrow> pyval \<Rightarrow> pyval \<Rightarrow> pyval \<Rightarrow> pyval \<Rightarrow> pyval \<Rightarrow> pyval \<Rightarrow> pyval \<Rightarrow> exn + pyval" where
  "fit_classifier lib reference_reads reference_taxonomy classifier_specification
       word_length taxonomy_separator taxonomy_depth multioutput =
     andThen (json_loads lib classifier_specification) (\<lambda>spec.
     andThen (pipeline_from_spec lib spec) (\<lambda>pipeline.
     let params = fitter_params word_length taxonomy_separator taxonomy_depth multioutput in
     andThen (fit_pipeline lib reference_reads reference_taxonomy pipeline params) (\<lambda>fitted.
     Inr (VDict [(''params'', VDict params), (''pipeline'', fitted)]))))"

definition classify :: "pylib \<Rightarrow> pyval \<Rightarrow> pyval \<Rightarrow> exn + series" where
  "classify lib reads classifier =
     andThen (py_getitem classifier (VStr ''pipeline'')) (\<lambda>pipeline.
     andThen (py_getitem classifier (VStr ''params'')) (\<lambda>params.
     andThen (py_kwargs params) (\<lambda>kwargs.
     andThen (predict lib reads pipeline kwargs) (\<lambda>(seq_ids, classifications).
     andThen (Series lib classifications seq_ids) (\<lambda>result.
     Inr (result\<lparr>s_name := VStr ''taxonomy'', s_index_name := VStr ''Feature ID''\<rparr>))))))"

section \<open>Synthesizing a fitter from a specification\<close>

text \<open>The primitive types of the workflow framework (\<open>Int\<close>, \<open>Float\<close>, \<open>Bool\<close>, \<open>Str\<close>).\<close>

datatype qtype = Q_Int | Q_Float | Q_Bool | Q_Str

text \<open>\<open>type(v)\<close>, told apart as far as \<open>type_map\<close> needs it.\<close>

fun py_type :: "pyval \<Rightarrow> pytype" where
  "py_type VNone = T_other ''NoneType''"
| "py_type (VBool b) = T_bool"
| "py_type (VInt i) = T_int"
| "py_type (VFloat x) = T_float"
| "py_type (VStr s) = T_str"
| "py_type (VList xs) = T_other ''list''"
| "py_type (VTuple xs) = T_other ''tuple''"
| "py_type (VDict d) = T_other ''dict''"
| "py_type (VCallable n) = T_other ''type''"
| "py_type (VObj n attrs) = T_other n"

fun type_map :: "pytype \<Rightarrow> qtype option" where
  "type_map T_int = Some Q_Int"
| "type_map T_float = Some Q_Float"
| "type_map T_bool = Some Q_Bool"
| "type_map T_str = Some Q_Str"
| "type_map (T_other n) = None"

definition fitter_parameters :: "(string \<times> qtype) list" where
  "fitter_parameters =
     [(''word_length'', Q_Int), (''taxonomy_separator'', Q_Str),
      (''taxonomy_depth'', Q_Int), (''multioutput'', Q_Bool)]"

text \<open>\<open>d.update(other)\<close> on dicts kept as association lists.\<close>

fun dict_update :: "('k \<times> 'v) list \<Rightarrow> ('k \<times> 'v) list \<Rightarrow> ('k \<times> 'v) list" where
  "dict_update d [] = d"
| "dict_update d ((k, v) # kvs) = dict_update (AList.update k v d) kvs"

text \<open>
  \<open>inspect.Parameter(name, kind, default=..., annotation=...)\<close> refuses a default on a
  variadic parameter.
\<close>

definition new_Parameter :: "string \<Rightarrow> kind \<Rightarrow> pyval \<Rightarrow> pytype \<Rightarrow> exn + parameter" where
  "new_Parameter n k d a =
     (if k = VAR_POSITIONAL \<or> k = VAR_KEYWORD then Inl ValueError
      else Inr \<lparr>param_name = n, param_kind = k, param_default = Default d,
                param_annotation = Some a\<rparr>)"

text \<open>
  The two assignments in the body of the loop of \<open>_register_fitter\<close>:
  \<open>annotation = type(default) if type(default) in type_map else str\<close> and
  \<open>default = json.dumps(default) if annotation is str else default\<close>.
\<close>

definition annotation_for :: "pyval \<Rightarrow> pytype" where
  "annotation_for dflt =
     (if type_map (py_type dflt) \<noteq> None then py_type dflt else T_str)"

definition encoded_default :: "pylib \<Rightarrow> pytype \<Rightarrow> pyval \<Rightarrow> exn + pyval" where
  "encoded_default lib annotation dflt =
     (if annotation = T_str then map_sum id VStr (json_dumps lib dflt) else Inr dflt)"

text \<open>
  The loop over the constructor's parameters, with its two accumulators \<open>parameters\<close>
  and \<open>signature_params\<close>. A parameter whose own default is callable is skipped;
  \<open>inspect.Parameter.empty\<close> is a class, hence callable.
\<close>

fun fitter_loop ::
  "pylib \<Rightarrow> pyval \<Rightarrow> parameter list \<Rightarrow> (string \<times> qtype) list \<Rightarrow> parameter list
     \<Rightarrow> exn + (string \<times> qtype) list \<times> parameter list" where
  "fitter_loop lib defaults [] parameters signature_params =
     Inr (parameters, signature_params)"
| "fitter_loop lib defaults (p # ps) parameters signature_params =
     (case param_default p of
        Empty \<Rightarrow> fitter_loop lib defaults ps parameters signature_params
      | Default own \<Rightarrow>
          if callable own then fitter_loop lib defaults ps parameters signature_params
          else
            andThen (py_get defaults (VStr (param_name p)) own) (\<lambda>default.
            let annotation = annotation_for default in
            andThen (encoded_default lib annotation default) (\<lambda>default.
            andThen (new_Parameter (param_name p) (param_kind p) default annotation)
              (\<lambda>new_param.
            fitter_loop lib defaults ps
              (AList.update (param_name p)
                 (case type_map annotation of None \<Rightarrow> Q_Str | Some q \<Rightarrow> q) parameters)
              (signature_params @ [new_param])))))"

text \<open>\<open>inspect.signature(generic_fitter)\<close>: the parameters the closure is written with.\<close>

definition generic_signature :: "parameter list" where
  "generic_signature =
     [\<lparr>param_name = ''reference_reads'', param_kind = POSITIONAL_OR_KEYWORD,
       param_default = Empty, param_annotation = Some (T_other ''types.GeneratorType'')\<rparr>,
      \<lparr>param_name = ''reference_taxonomy'', param_kind = POSITIONAL_OR_KEYWORD,
       param_default = Empty, param_annotation = Some (T_other ''pd.Series'')\<rparr>,
      \<lparr>param_name = ''word_length'', param_kind = POSITIONAL_OR_KEYWORD,
       param_default = Default (VInt 8), param_annotation = Some T_int\<rparr>,
      \<lparr>param_name = ''taxonomy_separator'', param_kind = POSITIONAL_OR_KEYWORD,
       param_default = Default (VStr []), param_annotation = Some T_str\<rparr>,
      \<lparr>param_name = ''taxonomy_depth'', param_kind = POSITIONAL_OR_KEYWORD,
       param_default = Default (VInt (- 1)), param_annotation = Some T_int\<rparr>,
      \<lparr>param_name = ''multioutput'', param_kind = POSITIONAL_OR_KEYWORD,
       param_default = Default (VBool False), param_annotation = Some T_bool\<rparr>,
      \<lparr>param_name = ''kwargs'', param_kind = VAR_KEYWORD,
       param_default = Empty, param_annotation = None\<rparr>]"

text \<open>
  \<open>inspect.Signature(parameters=...)\<close> validates its list: kinds in order, no parameter
  without default after one with default among the positional ones, no name twice.
\<close>

fun kind_rank :: "kind \<Rightarrow> nat" where
  "kind_rank POSITIONAL_ONLY = 0"
| "kind_rank POSITIONAL_OR_KEYWORD = 1"
| "kind_rank VAR_POSITIONAL = 2"
| "kind_rank KEYWORD_ONLY = 3"
| "kind_rank VAR_KEYWORD = 4"

fun signature_scan :: "kind \<Rightarrow> bool \<Rightarrow> string list \<Rightarrow> parameter list \<Rightarrow> bool" where
  "signature_scan top_kind kind_defaults seen [] = True"
| "signature_scan top_kind kind_defaults seen (p # ps) =
     (let k = param_kind p;
          positional = (k = POSITIONAL_ONLY \<or> k = POSITIONAL_OR_KEYWORD);
          kd = (if kind_rank k > kind_rank top_kind then False else kind_defaults)
      in if kind_rank k < kind_rank top_kind then False
         else if positional \<and> param_default p = Empty \<and> kd then False
         else if param_name p \<in> set seen then False
         else signature_scan (if kind_rank k > kind_rank top_kind then k else top_kind)
                (if positional \<and> param_default p \<noteq> Empty then True else kd)
                (param_name p # seen) ps)"

definition Signature :: "parameter list \<Rightarrow> exn + parameter list" where
  "Signature params =
     (if signature_scan POSITIONAL_ONLY False [] params then Inr params else Inl ValueError)"

text \<open>
  The synthesized callable: the specification its closure captured and the signature
  and return annotation set as its \<open>__signature__\<close>.
\<close>

record fitter =
  f_spec :: pyval
  f_signature :: "parameter list"
  f_return_annotation :: "pytype option"

datatype pyfunction = Fit_classifier | Classify | Generic_fitter fitter

text \<open>
  One call of \<open>plugin.methods.register_function\<close>: the function, its \<open>__name__\<close> at the
  time of the call, and the keyword arguments. The plugin's table is the list of the
  calls made, in order.
\<close>

record registration =
  r_function :: pyfunction
  r_function_name :: string
  r_inputs :: "(string \<times> string) list"
  r_parameters :: "(string \<times> qtype) list"
  r_outputs :: "(string \<times> string) list"
  r_name :: string
  r_description :: string

text \<open>
  The two calls of \<open>register_function\<close> that end \<open>_register_fitter\<close>: the same function
  object, first under the name \<open>fit_classifier_<name>\<close> for single-end reads, then, renamed,
  under \<open>fit_classifier_<name>_paired_end\<close> for paired-end reads.
\<close>

definition fitter_registrations ::
  "string \<Rightarrow> string \<Rightarrow> (string \<times> qtype) list \<Rightarrow> pyfunction \<Rightarrow> registration list" where
  "fitter_registrations name class_name parameters generic_fitter =
     [\<lparr>r_function = generic_fitter,
       r_function_name = ''fit_classifier_'' @ name,
       r_inputs = [(''reference_reads'', ''FeatureData[Sequence]''),
                   (''reference_taxonomy'', ''ReferenceFeatures[SSU]'')],
       r_parameters = parameters,
       r_outputs = [(''classifier'', ''TaxonomicClassifier'')],
       r_name = ''Train the '' @ class_name @ '' classifier.'',
       r_description = ''Create a '' @ class_name @ '' classifier for reads''\<rparr>,
      \<lparr>r_function = generic_fitter,
       r_function_name = ''fit_classifier_'' @ name @ ''_paired_end'',
       r_inputs = [(''reference_reads'', ''FeatureData[PairedEndSequence]''),
                   (''reference_taxonomy'', ''ReferenceFeatures[SSU]'')],
       r_parameters = parameters,
       r_outputs = [(''classifier'', ''TaxonomicClassifier'')],
       r_name = ''Train the '' @ class_name @ '' classifier.'',
       r_description = ''Create a '' @ class_name @ '' classifier for paired-end reads''\<rparr>]"

definition register_fitter ::
  "pylib \<Rightarrow> string \<Rightarrow> pyval \<Rightarrow> registration list \<Rightarrow> exn + registration list" where
  "register_fitter lib name spec plugin =
     andThen (py_getitem spec (VStr ''steps'')) (\<lambda>steps.
     andThen (py_getitem steps (VInt (- 1))) (\<lambda>last.
     andThen (py_getitem last (VInt 1)) (\<lambda>class_name.
     andThen (py_getitem spec (VStr ''steps'')) (\<lambda>steps.
     andThen (py_getitem steps (VInt (- 1))) (\<lambda>last.
     andThen (py_getitem last (VInt 0)) (\<lambda>key.
     andThen (py_getitem spec key) (\<lambda>defaults.
     andThen (load_class lib class_name) (\<lambda>cls.
     andThen (inspect_signature lib cls) (\<lambda>signature.
     andThen (fitter_loop lib defaults signature [] []) (\<lambda>(parameters, signature_params).
     let parameters = dict_update parameters fitter_parameters;
         new_params = butlast generic_signature @ signature_params in
     andThen (Signature new_params) (\<lambda>new_signature.
     case class_name of
       VStr cn \<Rightarrow>
         Inr (plugin @ fitter_registrations name cn parameters
                (Generic_fitter \<lparr>f_spec = spec, f_signature = new_signature,
                                 f_return_annotation = Some (T_other ''dict'')\<rparr>))
     | _ \<Rightarrow> Inl TypeError)))))))))))"

text \<open>The loop at the end of the module, over the predefined list \<open>_specific_fitters\<close>.\<close>

fun register_all ::
  "pylib \<Rightarrow> (string \<times> pyval) list \<Rightarrow> registration list \<Rightarrow> exn + registration list" where
  "register_all lib [] plugin = Inr plugin"
| "register_all lib ((name, pipeline) # rest) plugin =
     andThen (register_fitter lib name pipeline plugin) (register_all lib rest)"

section \<open>Invoking a synthesized fitter\<close>

text \<open>
  The specification a fitter captured is a mutable object that every invocation shares.
  Objects live in a store: \<open>cells\<close> maps a reference to the object's current value and
  \<open>next_free\<close> is the first reference not yet in use.
\<close>

record store =
  cells :: "nat \<Rightarrow> pyval"
  next_free :: nat

text \<open>
  \<open>copy.deepcopy(obj)\<close> raises on a value it cannot copy; otherwise it builds an equal
  value in a fresh object and returns its reference.
\<close>

definition deepcopy :: "pylib \<Rightarrow> store \<Rightarrow> nat \<Rightarrow> exn + nat \<times> store" where
  "deepcopy lib st r =
     (case deepcopy_raises lib (cells st r) of
        Some e \<Rightarrow> Inl e
      | None \<Rightarrow>
          Inr (next_free st,
               st\<lparr>cells := (cells st)(next_free st := cells st r),
                  next_free := Suc (next_free st)\<rparr>))"

text \<open>
  The loop over \<open>kwargs\<close>: each value is replaced by its JSON decoding, and left as it
  is when the decoder raises \<open>json.JSONDecodeError\<close> or \<open>TypeError\<close>. The keys of
  \<open>kwargs\<close> are distinct, so the loop visits each item once.
\<close>

fun decode_kwargs :: "pylib \<Rightarrow> (string \<times> pyval) list \<Rightarrow> exn + (string \<times> pyval) list" where
  "decode_kwargs lib [] = Inr []"
| "decode_kwargs lib ((param, v) # rest) =
     (case json_loads lib v of
        Inr decoded \<Rightarrow>
          andThen (decode_kwargs lib rest) (\<lambda>ds. Inr ((param, decoded) # ds))
      | Inl e \<Rightarrow>
          if e = JSONDecodeError \<or> e = TypeError
          then andThen (decode_kwargs lib rest) (\<lambda>ds. Inr ((param, v) # ds))
          else Inl e)"

text \<open>
  \<open>generic_fitter\<close>, the closure of \<open>_register_fitter\<close>; \<open>spec\<close> is the reference to the
  captured specification. It returns its result, or the exception raised, and the store
  it leaves behind.
\<close>

definition generic_fitter ::
  "pylib \<Rightarrow> nat \<Rightarrow> store \<Rightarrow> pyval \<Rightarrow> pyval \<Rightarrow> pyval \<Rightarrow> pyval \<Rightarrow> pyval \<Rightarrow> pyval
     \<Rightarrow> (string \<times> pyval) list \<Rightarrow> (exn + pyval) \<times> store" where
  "generic_fitter lib spec st reference_reads reference_taxonomy
       word_length taxonomy_separator taxonomy_depth multioutput kwargs =
     (case deepcopy lib st spec of
        Inl e \<Rightarrow> (Inl e, st)
      | Inr (this_spec, st1) \<Rightarrow>
          (case andThen (decode_kwargs lib kwargs) (\<lambda>kwargs.
                andThen (py_getitem (cells st1 spec) (VStr ''steps'')) (\<lambda>steps.
                andThen (py_getitem steps (VInt (- 1))) (\<lambda>last.
                andThen (py_getitem last (VInt 0)) (\<lambda>key.
                py_setitem (cells st1 this_spec) key (VDict kwargs))))) of
             Inl e \<Rightarrow> (Inl e, st1)
           | Inr updated \<Rightarrow>
               (let st2 = st1\<lparr>cells := (cells st1)(this_spec := updated)\<rparr> in
                (andThen (pipeline_from_spec lib (cells st2 this_spec)) (\<lambda>pipeline.
                 let params = fitter_params word_length taxonomy_separator taxonomy_depth
                                multioutput in
                 andThen (fit_pipeline lib reference_reads reference_taxonomy pipeline params)
                   (\<lambda>fitted.
                 Inr (VDict [(''params'', VDict params), (''pipeline'', fitted)]))),
                 st2))))"

text \<open>A sequence of invocations of one fitter, each on the store the previous one left.\<close>

type_synonym invocation =
  "pyval \<times> pyval \<times> pyval \<times> pyval \<times> pyval \<times> pyval \<times> (string \<times> pyval) list"

fun invoke :: "pylib \<Rightarrow> nat \<Rightarrow> store \<Rightarrow> invocation \<Rightarrow> (exn + pyval) \<times> store" where
  "invoke lib spec st (rr, rt, wl, ts, td, mo, kwargs) =
     generic_fitter lib spec st rr rt wl ts td mo kwargs"

fun invoke_all ::
  "pylib \<Rightarrow> nat \<Rightarrow> store \<Rightarrow> invocation list \<Rightarrow> (exn + pyval) list \<times> store" where
  "invoke_all lib spec st [] = ([], st)"
| "invoke_all lib spec st (c # cs) =
     (let (r, st1) = invoke lib spec st c;
          (rs, st2) = invoke_all lib spec st1 cs
      in (r # rs, st2))"

section \<open>The properties, in the words of the specification\<close>



text \<open>
  The class loaded from a dotted class name: the name is \<open>module.klass\<close>, split at its
  last dot, the module is imported and the class is its attribute \<open>klass\<close>.
\<close>

definition class_named :: "pylib \<Rightarrow> pyval \<Rightarrow> pyval \<Rightarrow> bool" where
  "class_named lib classname cls \<longleftrightarrow>
     (\<exists>module klass m. classname = VStr (module @ ''.'' @ klass) \<and> CHR ''.'' \<notin> set klass
        \<and> import_module lib module = Inr m \<and> getattr lib m klass = Inr cls)"

text \<open>
  The step described for one entry \<open>(name, class)\<close> of \<open>steps\<close> in a specification with
  the items \<open>d\<close>: the pair of the name and the instance that the class loaded from the
  dotted class name gives with the keyword arguments \<open>spec[name]\<close> when \<open>name\<close> is a key
  of the specification, and with no keyword arguments otherwise.
\<close>

definition described_step ::
  "pylib \<Rightarrow> (string \<times> pyval) list \<Rightarrow> pyval \<Rightarrow> pyval \<Rightarrow> bool" where
  "described_step lib d entry step \<longleftrightarrow>
     (\<exists>name classname cls kwargs instance.
        unpack2 entry = Inr (name, classname) \<and> hashable name
        \<and> class_named lib classname cls
        \<and> (case name of
              VStr s \<Rightarrow> (case map_of d s of Some v \<Rightarrow> v = VDict kwargs | None \<Rightarrow> kwargs = [])
            | _ \<Rightarrow> kwargs = [])
        \<and> call_kw lib cls kwargs = Inr instance
        \<and> step = VTuple [name, instance])"






text \<open>One registered action for each entry of the predefined list, as first stated.\<close>

definition one_action_per_entry :: "pylib \<Rightarrow> (string \<times> pyval) list \<Rightarrow> bool" where
  "one_action_per_entry lib fitters =
     (map_sum id length (register_all lib fitters []) = Inr (length fitters))"




section \<open>A small library and specifications for examples\<close>

text \<open>
  Three classes in a module \<open>toy\<close>:
  \<open>Hasher(n_features=1048576, norm='l2', ngram_range=(1, 1), dtype=numpy.float64)\<close>,
  \<open>Bayes(alpha=1.0, fit_prior=True, class_prior=None)\<close> and \<open>Plain()\<close>. Instances keep
  their keyword arguments as attributes. The JSON functions know the documents used
  here, raise \<open>RecursionError\<close> on a thousand or more opening brackets, as the parser does
  on nesting too deep, and take every other str as malformed.
\<close>

definition toy_steps :: pyval where
  "toy_steps = VList [VList [VStr ''feat_ext'', VStr ''toy.Hasher''],
                      VList [VStr ''classify'', VStr ''toy.Bayes'']]"

definition toy_defaults :: pyval where
  "toy_defaults = VDict [(''alpha'', VFloat 0x3F847AE147AE147B)]"

definition toy_items :: "(string \<times> pyval) list" where
  "toy_items =
     [(''steps'', toy_steps),
      (''feat_ext'', VDict [(''n_features'', VInt 8192)]),
      (''classify'', toy_defaults)]"

definition toy_spec :: pyval where
  "toy_spec = VDict toy_items"


text \<open>A specification that ends in the hasher, and one whose only step is named \<open>steps\<close>.\<close>

definition toy_hasher_spec :: pyval where
  "toy_hasher_spec =
     VDict [(''steps'', VList [VList [VStr ''feat_ext'', VStr ''toy.Hasher'']]),
            (''feat_ext'', VDict [(''n_features'', VInt 8192)])]"


text \<open>The pipeline that the example library builds from the example specification.\<close>

definition toy_pipeline :: pyval where
  "toy_pipeline =
     VObj ''Pipeline''
       [(''steps'',
         VList [VTuple [VStr ''feat_ext'', VObj ''Hasher'' [(''n_features'', VInt 8192)]],
                VTuple [VStr ''classify'',
                        VObj ''Bayes'' [(''alpha'', VFloat 0x3F847AE147AE147B)]]])]"

definition toy_document :: string where
  \<open>toy_document = ''{"steps": [["feat_ext", "toy.Hasher"], ["classify", "toy.Bayes"]], "feat_ext": {"n_features": 8192}, "classify": {"alpha": 0.01}}''\<close>


definition Bayes_parameters :: "parameter list" where
  "Bayes_parameters =
     [\<lparr>param_name = ''alpha'', param_kind = POSITIONAL_OR_KEYWORD,
       param_default = Default (VFloat 0x3FF0000000000000), param_annotation = None\<rparr>,
      \<lparr>param_name = ''fit_prior'', param_kind = POSITIONAL_OR_KEYWORD,
       param_default = Default (VBool True), param_annotation = None\<rparr>,
      \<lparr>param_name = ''class_prior'', param_kind = POSITIONAL_OR_KEYWORD,
       param_default = Default VNone, param_annotation = None\<rparr>]"

definition Hasher_parameters :: "parameter list" where
  "Hasher_parameters =
     [\<lparr>param_name = ''n_features'', param_kind = POSITIONAL_OR_KEYWORD,
       param_default = Default (VInt 1048576), param_annotation = None\<rparr>,
      \<lparr>param_name = ''norm'', param_kind = POSITIONAL_OR_KEYWORD,
       param_default = Default (VStr ''l2''), param_annotation = None\<rparr>,
      \<lparr>param_name = ''ngram_range'', param_kind = POSITIONAL_OR_KEYWORD,
       param_default = Default (VTuple [VInt 1, VInt 1]), param_annotation = None\<rparr>,
      \<lparr>param_name = ''dtype'', param_kind = POSITIONAL_OR_KEYWORD,
       param_default = Default (VCallable ''numpy.float64''), param_annotation = None\<rparr>]"

definition toy_loads :: "pyval \<Rightarrow> exn + pyval" where
  \<open>toy_loads v =
     (case v of
        VStr s \<Rightarrow>
          if 1000 \<le> length s \<and> list_all (\<lambda>c. c = CHR ''['') s then Inl RecursionError
          else if s = ''null'' then Inr VNone
          else if s = ''"l2"'' then Inr (VStr ''l2'')
          else if s = ''[1, 1]'' then Inr (VList [VInt 1, VInt 1])
          else if s = ''{}'' then Inr (VDict [])
          else if s = toy_document then Inr toy_spec
          else Inl JSONDecodeError
      | _ \<Rightarrow> Inl TypeError)\<close>

definition toy_dumps :: "pyval \<Rightarrow> exn + string" where
  \<open>toy_dumps v =
     (case v of
        VNone \<Rightarrow> Inr ''null''
      | VStr s \<Rightarrow> if s = ''l2'' then Inr ''"l2"'' else Inl (LibError ''not in the example'')
      | VTuple xs \<Rightarrow> if xs = [VInt 1, VInt 1] then Inr ''[1, 1]''
                     else Inl (LibError ''not in the example'')
      | _ \<Rightarrow> Inl TypeError)\<close>

definition toy_lib :: pylib where
  "toy_lib =
     \<lparr>json_loads = toy_loads,
      json_dumps = toy_dumps,
      import_module = (\<lambda>m. if m = ''toy'' then Inr (VObj ''module'' [])
                            else Inl (LibError ''ImportError'')),
      getattr = (\<lambda>m k. if m = VObj ''module'' []
                            \<and> (k = ''Bayes'' \<or> k = ''Hasher'' \<or> k = ''Plain'')
                         then Inr (VCallable k) else Inl AttributeError),
      call_kw = (\<lambda>cls kw. case cls of VCallable n \<Rightarrow> Inr (VObj n kw) | _ \<Rightarrow> Inl TypeError),
      inspect_signature = (\<lambda>cls. if cls = VCallable ''Bayes'' then Inr Bayes_parameters
                                   else if cls = VCallable ''Hasher'' then Inr Hasher_parameters
                                   else if cls = VCallable ''Plain'' then Inr []
                                   else Inl TypeError),
      Pipeline = (\<lambda>steps. Inr (VObj ''Pipeline'' [(''steps'', steps)])),
      fit_pipeline = (\<lambda>rr rt p params.
                        Inr (VObj ''Pipeline'' [(''fitted'', p), (''params'', VDict params)])),
      predict = (\<lambda>reads p kw. Inr (VList [VStr ''seq1''], VList [VStr ''k__Bacteria''])),
      Series = (\<lambda>data index. Inr \<lparr>s_values = data, s_index = index, s_name = VNone,
                                    s_index_name = VNone\<rparr>),
      deepcopy_raises = (\<lambda>v. None)\<rparr>"

text \<open>A store holding one captured specification at reference 0.\<close>

definition store_of :: "pyval \<Rightarrow> store" where
  "store_of spec = \<lparr>cells = (\<lambda>r. if r = 0 then spec else VNone), next_free = 1\<rparr>"

definition toy_store :: store where
  "toy_store = store_of toy_spec"

text \<open>The record that fitting the example specification with the default arguments gives.\<close>

definition toy_record :: pyval where
  "toy_record =
     VDict [(''params'', VDict [(''word_length'', VInt 8), (''taxonomy_separator'', VStr []),
                                (''taxonomy_depth'', VInt (- 1)), (''multioutput'', VBool False)]),
            (''pipeline'',
             VObj ''Pipeline''
               [(''fitted'',
                 VObj ''Pipeline''
                   [(''steps'',
                     VList [VTuple [VStr ''feat_ext'',
                                    VObj ''Hasher'' [(''n_features'', VInt 8192)]],
                            VTuple [VStr ''classify'',
                                    VObj ''Bayes'' [(''alpha'', VFloat 0x3F847AE147AE147B)]]])]),
                (''params'',
                 VDict [(''word_length'', VInt 8), (''taxonomy_separator'', VStr []),
                        (''taxonomy_depth'', VInt (- 1)), (''multioutput'', VBool False)])])]"




text \<open>
  What \<open>_register_fitter\<close> computes once it has the class name and the defaults of the
  final step: the registered parameters and the new signature.
\<close>

definition exposed_parameters ::
  "pylib \<Rightarrow> pyval \<Rightarrow> pyval \<Rightarrow> exn + (string \<times> qtype) list \<times> parameter list" where
  "exposed_parameters lib class_name defaults =
     andThen (load_class lib class_name) (\<lambda>cls.
     andThen (inspect_signature lib cls) (\<lambda>ctor.
     andThen (fitter_loop lib defaults ctor [] []) (\<lambda>(parameters, signature_params).
     andThen (Signature (butlast generic_signature @ signature_params)) (\<lambda>new_signature.
     Inr (dict_update parameters fitter_parameters, new_signature)))))"




text \<open>The specification that the closure of a synthesized function captured.\<close>

fun captured_spec :: "pyfunction \<Rightarrow> pyval option" where
  "captured_spec (Generic_fitter f) = Some (f_spec f)"
| "captured_spec g = None"

section \<open>Basic facts\<close>

lemma andThen_Inr_iff: "andThen m f = Inr y \<longleftrightarrow> (\<exists>x. m = Inr x \<and> f x = Inr y)"
  by (cases m) auto


section \<open>The record a fitter returns\<close>

text \<open>
  C6. Whenever \<open>fit_classifier\<close> or a synthesized fitter returns, the result is the dict
  with exactly the keys \<open>'params'\<close> and \<open>'pipeline'\<close>, in which \<open>'params'\<close> maps exactly
  \<open>'word_length'\<close>, \<open>'taxonomy_separator'\<close>, \<open>'taxonomy_depth'\<close> and \<open>'multioutput'\<close> to the
  values of those arguments and \<open>'pipeline'\<close> is what \<open>fit_pipeline\<close> returned for the
  pipeline built from the specification; \<open>fit_classifier\<close> returns exactly when the
  parser, the pipeline construction and \<open>fit_pipeline\<close> do.
\<close>

theorem fitters_return_params_and_pipeline:
  "(fit_classifier lib rr rt cs wl ts td mo = Inr r \<longleftrightarrow>
      (\<exists>spec pipeline fitted.
         json_loads lib cs = Inr spec \<and> pipeline_from_spec lib spec = Inr pipeline
         \<and> fit_pipeline lib rr rt pipeline (fitter_params wl ts td mo) = Inr fitted
         \<and> r = VDict [(''params'', VDict [(''word_length'', wl), (''taxonomy_separator'', ts),
                                          (''taxonomy_depth'', td), (''multioutput'', mo)]),
                      (''pipeline'', fitted)]))
   \<and> (fst (generic_fitter lib spec st rr rt wl ts td mo kwargs) = Inr r \<longrightarrow>
      (\<exists>this_spec pipeline fitted.
         pipeline_from_spec lib this_spec = Inr pipeline
         \<and> fit_pipeline lib rr rt pipeline (fitter_params wl ts td mo) = Inr fitted
         \<and> r = VDict [(''params'', VDict [(''word_length'', wl), (''taxonomy_separator'', ts),
                                          (''taxonomy_depth'', td), (''multioutput'', mo)]),
                      (''pipeline'', fitted)]))"
proof -
  have a: "fit_classifier lib rr rt cs wl ts td mo = Inr r \<longleftrightarrow>
      (\<exists>spec pipeline fitted.
         json_loads lib cs = Inr spec \<and> pipeline_from_spec lib spec = Inr pipeline
         \<and> fit_pipeline lib rr rt pipeline (fitter_params wl ts td mo) = Inr fitted
         \<and> r = VDict [(''params'', VDict [(''word_length'', wl), (''taxonomy_separator'', ts),
                                          (''taxonomy_depth'', td), (''multioutput'', mo)]),
                      (''pipeline'', fitted)])"
    by (auto simp: fit_classifier_def Let_def andThen_Inr_iff fitter_params_def)
  have b: "fst (generic_fitter lib spec st rr rt wl ts td mo kwargs) = Inr r \<longrightarrow>
      (\<exists>this_spec pipeline fitted.
         pipeline_from_spec lib this_spec = Inr pipeline
         \<and> fit_pipeline lib rr rt pipeline (fitter_params wl ts td mo) = Inr fitted
         \<and> r = VDict [(''params'', VDict [(''word_length'', wl), (''taxonomy_separator'', ts),
                                          (''taxonomy_depth'', td), (''multioutput'', mo)]),
                      (''pipeline'', fitted)])"
    unfolding generic_fitter_def
    by (auto simp: Let_def andThen_Inr_iff fitter_params_def split: sum.splits prod.splits)
  from a b show ?thesis by blast
qed

theorem fitters_return_params_and_pipeline_witness:
  "fit_classifier toy_lib (VObj ''generator'' []) (VObj ''Series'' []) (VStr toy_document)
       (VInt 8) (VStr []) (VInt (- 1)) (VBool False) = Inr toy_record
   \<and> fst (generic_fitter toy_lib 0 toy_store (VObj ''generator'' []) (VObj ''Series'' [])
       (VInt 8) (VStr []) (VInt (- 1)) (VBool False) [(''alpha'', VFloat 0x3F847AE147AE147B)])
       = Inr toy_record
   \<and> (\<exists>fitted. toy_record =
         VDict [(''params'', VDict [(''word_length'', VInt 8), (''taxonomy_separator'', VStr []),
                                    (''taxonomy_depth'', VInt (- 1)),
                                    (''multioutput'', VBool False)]),
                (''pipeline'', fitted)])"
proof -
  have a: "fit_classifier toy_lib (VObj ''generator'' []) (VObj ''Series'' []) (VStr toy_document)
       (VInt 8) (VStr []) (VInt (- 1)) (VBool False) = Inr toy_record"
    by code_simp
  have b: "fst (generic_fitter toy_lib 0 toy_store (VObj ''generator'' []) (VObj ''Series'' [])
       (VInt 8) (VStr []) (VInt (- 1)) (VBool False) [(''alpha'', VFloat 0x3F847AE147AE147B)])
       = Inr toy_record"
    by code_simp
  from fitters_return_params_and_pipeline [where lib = toy_lib and r = toy_record
      and rr = "VObj ''generator'' []" and rt = "VObj ''Series'' []"
      and cs = "VStr toy_document" and wl = "VInt 8" and ts = "VStr []" and td = "VInt (- 1)"
      and mo = "VBool False" and spec = 0 and st = toy_store
      and kwargs = "[(''alpha'', VFloat 0x3F847AE147AE147B)]"] a b
  show ?thesis by blast
qed

section \<open>The captured specification is never written\<close>

lemma generic_fitter_store:
  "next_free st \<le> next_free (snd (generic_fitter lib spec st rr rt wl ts td mo kwargs))
   \<and> (\<forall>r. r < next_free st \<longrightarrow>
         cells (snd (generic_fitter lib spec st rr rt wl ts td mo kwargs)) r = cells st r)"
proof (cases "deepcopy_raises lib (cells st spec)")
  case (Some e)
  then show ?thesis by (simp add: generic_fitter_def deepcopy_def)
next
  case None
  then show ?thesis
    unfolding generic_fitter_def deepcopy_def
    by (simp add: Let_def split: sum.split)
qed

lemma generic_fitter_reads_spec_only:
  assumes "cells st spec = cells st' spec"
  shows "fst (generic_fitter lib spec st rr rt wl ts td mo kwargs) =
     fst (generic_fitter lib spec st' rr rt wl ts td mo kwargs)"
proof (cases "deepcopy_raises lib (cells st spec)")
  case (Some e)
  then show ?thesis using assms by (simp add: generic_fitter_def deepcopy_def)
next
  case None
  then show ?thesis
    unfolding generic_fitter_def deepcopy_def
    using assms by (simp add: Let_def split: sum.split)
qed

lemma invoke_store:
  "next_free st \<le> next_free (snd (invoke lib spec st c))
   \<and> (\<forall>r. r < next_free st \<longrightarrow> cells (snd (invoke lib spec st c)) r = cells st r)"
proof -
  obtain rr rt wl ts td mo kwargs where c: "c = (rr, rt, wl, ts, td, mo, kwargs)"
    by (metis prod_cases7)
  show ?thesis unfolding c invoke.simps by (rule generic_fitter_store)
qed

lemma invoke_reads_spec_only:
  assumes "cells st spec = cells st' spec"
  shows "fst (invoke lib spec st c) = fst (invoke lib spec st' c)"
proof -
  obtain rr rt wl ts td mo kwargs where c: "c = (rr, rt, wl, ts, td, mo, kwargs)"
    by (metis prod_cases7)
  show ?thesis unfolding c invoke.simps by (rule generic_fitter_reads_spec_only [OF assms])
qed

lemma invoke_all_frame:
  "spec < next_free st \<Longrightarrow>
     cells (snd (invoke_all lib spec st cs)) spec = cells st spec
     \<and> fst (invoke_all lib spec st cs) = map (\<lambda>c. fst (invoke lib spec st c)) cs"
proof (induction cs arbitrary: st)
  case Nil
  then show ?case by simp
next
  case (Cons c cs)
  obtain r st1 where inv: "invoke lib spec st c = (r, st1)" by (cases "invoke lib spec st c")
  have "next_free st \<le> next_free st1"
    using invoke_store [of st lib spec c] inv by simp
  with Cons.prems have nf: "spec < next_free st1" by simp
  have same: "cells st1 spec = cells st spec"
    using invoke_store [of st lib spec c] inv Cons.prems by simp
  from Cons.IH [OF nf]
  have ih1: "cells (snd (invoke_all lib spec st1 cs)) spec = cells st1 spec"
    and ih2: "fst (invoke_all lib spec st1 cs) = map (\<lambda>c. fst (invoke lib spec st1 c)) cs"
    by simp_all
  have eq: "map (\<lambda>c. fst (invoke lib spec st1 c)) cs = map (\<lambda>c. fst (invoke lib spec st c)) cs"
    using invoke_reads_spec_only [OF same] by simp
  obtain rs st2 where all: "invoke_all lib spec st1 cs = (rs, st2)"
    by (cases "invoke_all lib spec st1 cs")
  have unfold: "invoke_all lib spec st (c # cs) = (r # rs, st2)"
    using inv all by simp
  show ?case unfolding unfold using ih1 ih2 eq same all inv by simp
qed

text \<open>
  C7. An invocation of a synthesized fitter leaves the specification it captured as it
  was: the write of the caller's keyword arguments goes to the deep copy. Whatever the
  invocation does (return or raise), the object at the captured reference is unchanged,
  and in any sequence of invocations each one computes what it would compute on the
  original store, since it reads nothing but that object.
\<close>

theorem captured_spec_unchanged:
  assumes "spec < next_free st"
  shows "cells (snd (generic_fitter lib spec st rr rt wl ts td mo kwargs)) spec = cells st spec
     \<and> cells (snd (invoke_all lib spec st calls)) spec = cells st spec
     \<and> fst (invoke_all lib spec st calls) = map (\<lambda>c. fst (invoke lib spec st c)) calls"
proof -
  have "cells (snd (generic_fitter lib spec st rr rt wl ts td mo kwargs)) spec = cells st spec"
    using generic_fitter_store [of st lib spec rr rt wl ts td mo kwargs] assms by simp
  then show ?thesis using invoke_all_frame [OF assms, of lib calls] by simp
qed

theorem captured_spec_unchanged_witness:
  "0 < next_free toy_store
   \<and> cells (snd (generic_fitter toy_lib 0 toy_store (VObj ''generator'' []) (VObj ''Series'' [])
         (VInt 8) (VStr []) (VInt (- 1)) (VBool False) [(''class_prior'', VStr ''null'')])) 0
       = toy_spec
   \<and> cells (snd (invoke_all toy_lib 0 toy_store
         [(VObj ''generator'' [], VObj ''Series'' [], VInt 8, VStr [], VInt (- 1), VBool False,
           [(''class_prior'', VStr ''null'')]),
          (VObj ''generator'' [], VObj ''Series'' [], VInt 7, VStr [], VInt (- 1), VBool True,
           [])])) 0 = toy_spec"
  using captured_spec_unchanged [of 0 toy_store toy_lib "VObj ''generator'' []"
      "VObj ''Series'' []" "VInt 8" "VStr []" "VInt (- 1)" "VBool False"
      "[(''class_prior'', VStr ''null'')]"
      "[(VObj ''generator'' [], VObj ''Series'' [], VInt 8, VStr [], VInt (- 1), VBool False,
           [(''class_prior'', VStr ''null'')]),
          (VObj ''generator'' [], VObj ''Series'' [], VInt 7, VStr [], VInt (- 1), VBool True,
           [])]"]
  by (simp add: toy_store_def store_of_def)

section \<open>Classifying reads\<close>

text \<open>
  C10. For a classifier record (a dict with a \<open>'pipeline'\<close> and a dict of \<open>'params'\<close>),
  when \<open>predict\<close> on the record's pipeline with the record's params returns the sequence
  ids and the classifications, and pandas builds a Series from the classifications as
  data and the sequence ids as index, \<open>classify\<close> returns that Series, with the values
  and the index pandas gave it, named \<open>'taxonomy'\<close>, with index name \<open>'Feature ID'\<close>.
\<close>

theorem classify_returns_named_series:
  assumes "py_getitem classifier (VStr ''pipeline'') = Inr pipeline"
    and "py_getitem classifier (VStr ''params'') = Inr (VDict params)"
    and "predict lib reads pipeline params = Inr (seq_ids, classifications)"
    and "Series lib classifications seq_ids = Inr built"
  shows "classify lib reads classifier =
           Inr \<lparr>s_values = s_values built, s_index = s_index built,
                s_name = VStr ''taxonomy'', s_index_name = VStr ''Feature ID''\<rparr>"
  using assms by (simp add: classify_def)

theorem classify_returns_named_series_witness:
  "classify toy_lib (VObj ''generator'' [])
     (VDict [(''params'', VDict [(''word_length'', VInt 8)]),
             (''pipeline'', VObj ''Pipeline'' [])]) =
   Inr \<lparr>s_values = VList [VStr ''k__Bacteria''], s_index = VList [VStr ''seq1''],
        s_name = VStr ''taxonomy'', s_index_name = VStr ''Feature ID''\<rparr>"
  using classify_returns_named_series [where lib = toy_lib
      and classifier = "VDict [(''params'', VDict [(''word_length'', VInt 8)]),
                               (''pipeline'', VObj ''Pipeline'' [])]"
      and params = "[(''word_length'', VInt 8)]" and pipeline = "VObj ''Pipeline'' []"
      and reads = "VObj ''generator'' []"
      and seq_ids = "VList [VStr ''seq1'']" and classifications = "VList [VStr ''k__Bacteria'']"
      and built = "\<lparr>s_values = VList [VStr ''k__Bacteria''], s_index = VList [VStr ''seq1''],
                    s_name = VNone, s_index_name = VNone\<rparr>"]
  by (simp add: toy_lib_def)

section \<open>Building a pipeline: class loading and the steps\<close>

lemma rsplit_dot_iff:
  "rsplit_dot s = [m, k] \<longleftrightarrow> s = m @ ''.'' @ k \<and> CHR ''.'' \<notin> set k"
proof
  assume a: "rsplit_dot s = [m, k]"
  let ?P = "\<lambda>c. c \<noteq> CHR ''.''"
  from a have ne: "dropWhile ?P (rev s) \<noteq> []"
    by (auto simp: rsplit_dot_def Let_def split: if_splits)
  have "rsplit_dot s = [rev (tl (dropWhile ?P (rev s))), rev (takeWhile ?P (rev s))]"
    by (simp only: rsplit_dot_def Let_def ne if_False)
  with a have m: "m = rev (tl (dropWhile ?P (rev s)))" and k: "k = rev (takeWhile ?P (rev s))"
    by simp_all
  from ne have "hd (dropWhile ?P (rev s)) = CHR ''.''"
    using hd_dropWhile [of ?P "rev s"] by simp
  with ne have dw: "dropWhile ?P (rev s) = CHR ''.'' # rev m"
    unfolding m by (cases "dropWhile ?P (rev s)") simp_all
  have "rev s = takeWhile ?P (rev s) @ dropWhile ?P (rev s)" by simp
  then have "rev s = rev k @ CHR ''.'' # rev m" unfolding dw k by simp
  then have "rev (rev s) = rev (rev k @ CHR ''.'' # rev m)" by (rule arg_cong)
  then have s: "s = m @ ''.'' @ k" by simp
  have "CHR ''.'' \<notin> set k" unfolding k using set_takeWhileD [of "CHR ''.''" ?P "rev s"] by auto
  with s show "s = m @ ''.'' @ k \<and> CHR ''.'' \<notin> set k" by simp
next
  assume b: "s = m @ ''.'' @ k \<and> CHR ''.'' \<notin> set k"
  let ?P = "\<lambda>c. c \<noteq> CHR ''.''"
  from b have r: "rev s = rev k @ CHR ''.'' # rev m" by simp
  from b have all: "\<forall>c \<in> set (rev k). ?P c" by auto
  have "dropWhile ?P (rev k @ CHR ''.'' # rev m) = dropWhile ?P (CHR ''.'' # rev m)"
    by (rule dropWhile_append2) (use all in blast)
  then have dw: "dropWhile ?P (rev s) = CHR ''.'' # rev m"
    unfolding r by simp
  have "takeWhile ?P (rev k @ CHR ''.'' # rev m) = rev k @ takeWhile ?P (CHR ''.'' # rev m)"
    by (rule takeWhile_append2) (use all in blast)
  then have tw: "takeWhile ?P (rev s) = rev k"
    unfolding r by simp
  show "rsplit_dot s = [m, k]"
    unfolding rsplit_dot_def Let_def dw tw by simp
qed

lemma rsplit_dot_cases:
  "rsplit_dot s = [s] \<or> (\<exists>m k. rsplit_dot s = [m, k])"
  by (simp add: rsplit_dot_def Let_def)

lemma load_class_Inr_iff:
  "load_class lib classname = Inr cls \<longleftrightarrow> class_named lib classname cls"
proof (cases classname)
  case (VStr c)
  from rsplit_dot_cases [of c] show ?thesis
  proof
    assume one: "rsplit_dot c = [c]"
    then have "\<not> (\<exists>m k. c = m @ ''.'' @ k \<and> CHR ''.'' \<notin> set k)"
      using rsplit_dot_iff [of c] by auto
    with one VStr show ?thesis
      by (auto simp: load_class_def class_named_def)
  next
    assume "\<exists>m k. rsplit_dot c = [m, k]"
    then obtain m k where two: "rsplit_dot c = [m, k]" by blast
    then have c: "c = m @ ''.'' @ k" "CHR ''.'' \<notin> set k"
      using rsplit_dot_iff [of c m k] by simp_all
    have uniq: "m' = m \<and> k' = k" if "c = m' @ ''.'' @ k' \<and> CHR ''.'' \<notin> set k'" for m' k'
    proof -
      from that have "rsplit_dot c = [m', k']" using rsplit_dot_iff [of c m' k'] by blast
      with two show ?thesis by simp
    qed
    show ?thesis
    proof
      assume "load_class lib classname = Inr cls"
      with VStr two obtain mo where "import_module lib m = Inr mo" "getattr lib mo k = Inr cls"
        by (auto simp: load_class_def andThen_Inr_iff)
      with c VStr show "class_named lib classname cls"
        unfolding class_named_def by blast
    next
      assume "class_named lib classname cls"
      then obtain m' k' mo where h: "c = m' @ ''.'' @ k'" "CHR ''.'' \<notin> set k'"
        "import_module lib m' = Inr mo" "getattr lib mo k' = Inr cls"
        unfolding class_named_def VStr by auto
      from uniq [of m' k'] h(1,2) have "m' = m" "k' = k" by simp_all
      with h VStr two show "load_class lib classname = Inr cls"
        by (simp add: load_class_def)
    qed
  qed
qed (simp_all add: load_class_def class_named_def)

lemma py_kwargs_Inr_iff: "py_kwargs kw = Inr kwargs \<longleftrightarrow> kw = VDict kwargs"
  by (cases kw) auto

lemma step_kwargs_iff:
  "(\<exists>kw. py_get (VDict d) name (VDict []) = Inr kw \<and> py_kwargs kw = Inr kwargs) \<longleftrightarrow>
     hashable name
     \<and> (case name of
          VStr s \<Rightarrow> (case map_of d s of Some v \<Rightarrow> v = VDict kwargs | None \<Rightarrow> kwargs = [])
        | _ \<Rightarrow> kwargs = [])"
  unfolding py_kwargs_Inr_iff
  by (cases name) (auto split: option.splits)

lemma pipeline_steps_Cons_iff:
  "pipeline_steps lib (VDict d) (x # xs) = Inr steps \<longleftrightarrow>
     (\<exists>st rest. described_step lib d x st \<and> pipeline_steps lib (VDict d) xs = Inr rest
        \<and> steps = st # rest)"
proof
  assume "pipeline_steps lib (VDict d) (x # xs) = Inr steps"
  then obtain name c cls kw kwargs inst rest where
    h: "unpack2 x = Inr (name, c)" "load_class lib c = Inr cls"
      "py_get (VDict d) name (VDict []) = Inr kw" "py_kwargs kw = Inr kwargs"
      "call_kw lib cls kwargs = Inr inst" "pipeline_steps lib (VDict d) xs = Inr rest"
      "steps = VTuple [name, inst] # rest"
    by (auto simp: andThen_Inr_iff)
  from h(3,4) have "hashable name
     \<and> (case name of
          VStr s \<Rightarrow> (case map_of d s of Some v \<Rightarrow> v = VDict kwargs | None \<Rightarrow> kwargs = [])
        | _ \<Rightarrow> kwargs = [])"
    using step_kwargs_iff [of d name kwargs] by blast
  with h(1,2,5) have "described_step lib d x (VTuple [name, inst])"
    unfolding described_step_def load_class_Inr_iff by blast
  with h(6,7) show "\<exists>st rest. described_step lib d x st
      \<and> pipeline_steps lib (VDict d) xs = Inr rest \<and> steps = st # rest" by blast
next
  assume "\<exists>st rest. described_step lib d x st \<and> pipeline_steps lib (VDict d) xs = Inr rest
        \<and> steps = st # rest"
  then obtain st rest name c cls kwargs inst where
    h: "unpack2 x = Inr (name, c)" "hashable name" "class_named lib c cls"
      "case name of
          VStr s \<Rightarrow> (case map_of d s of Some v \<Rightarrow> v = VDict kwargs | None \<Rightarrow> kwargs = [])
        | _ \<Rightarrow> kwargs = []"
      "call_kw lib cls kwargs = Inr inst" "st = VTuple [name, inst]"
      "pipeline_steps lib (VDict d) xs = Inr rest" "steps = st # rest"
    unfolding described_step_def by blast
  from h(2,4) obtain kw where kw: "py_get (VDict d) name (VDict []) = Inr kw"
      "py_kwargs kw = Inr kwargs"
    using step_kwargs_iff [of d name kwargs] by blast
  from h(3) have "load_class lib c = Inr cls" unfolding load_class_Inr_iff .
  with h kw show "pipeline_steps lib (VDict d) (x # xs) = Inr steps"
    by simp
qed

lemma pipeline_steps_iff:
  "pipeline_steps lib (VDict d) items = Inr steps \<longleftrightarrow>
     list_all2 (described_step lib d) items steps"
proof (induction items arbitrary: steps)
  case Nil
  show ?case by auto
next
  case (Cons x xs)
  show ?case
    unfolding pipeline_steps_Cons_iff
    by (auto simp: Cons.IH list_all2_Cons1)
qed

text \<open>
  C2. For a specification dict with a \<open>'steps'\<close> key, \<open>_pipeline_from_spec\<close> returns a
  pipeline exactly when every entry of \<open>spec['steps']\<close> has its described step (the pair
  of the name and the instance of the class that \<open>import_module\<close> and \<open>getattr\<close> load
  from the dotted class name, split at its last dot, called with \<open>spec[name]\<close> as
  keyword arguments when \<open>name\<close> is a key, with none otherwise) and \<open>Pipeline\<close> accepts
  the list; the pipeline is then \<open>Pipeline\<close> of those steps, entry by entry in the order
  of \<open>spec['steps']\<close>.
\<close>

theorem pipeline_from_spec_builds_described_steps:
  assumes "map_of d ''steps'' = Some sv"
  shows "pipeline_from_spec lib (VDict d) = Inr p \<longleftrightarrow>
     (\<exists>items steps. py_iter sv = Inr items
        \<and> list_all2 (described_step lib d) items steps
        \<and> Pipeline lib (VList steps) = Inr p)"
  using assms by (simp add: pipeline_from_spec_def andThen_Inr_iff pipeline_steps_iff)

theorem pipeline_from_spec_builds_described_steps_witness:
  "map_of toy_items ''steps'' = Some toy_steps
   \<and> pipeline_from_spec toy_lib (VDict toy_items) = Inr toy_pipeline
   \<and> (\<exists>items steps. py_iter toy_steps = Inr items
        \<and> list_all2 (described_step toy_lib toy_items) items steps
        \<and> Pipeline toy_lib (VList steps) = Inr toy_pipeline)"
proof -
  have a: "map_of toy_items ''steps'' = Some toy_steps"
    by (simp add: toy_items_def)
  have b: "pipeline_from_spec toy_lib (VDict toy_items) = Inr toy_pipeline"
    by code_simp
  from pipeline_from_spec_builds_described_steps [OF a, of toy_lib toy_pipeline] a b
  show ?thesis by simp
qed

section \<open>Facts about subscripts, registration and invocation\<close>

lemma py_getitem_dict_Inr:
  "py_getitem (VDict d) k = Inr v \<longleftrightarrow> (\<exists>s. k = VStr s \<and> map_of d s = Some v)"
  by (cases k) (auto split: option.splits)

lemma py_getitem_str_key:
  "py_getitem spec (VStr s) = Inr v \<longleftrightarrow> (\<exists>d. spec = VDict d \<and> map_of d s = Some v)"
  by (cases spec) (auto simp: seq_index_def split: option.splits)





lemma case_VStr_Inr_iff:
  "(case v of VStr s \<Rightarrow> f s | _ \<Rightarrow> Inl e) = Inr y \<longleftrightarrow> (\<exists>s. v = VStr s \<and> f s = Inr y)"
  by (cases v) simp_all


lemma registered_final_step:
  assumes "register_fitter lib name spec plugin = Inr plugin'"
  shows "\<exists>d steps final class_name key defaults.
           spec = VDict d \<and> map_of d ''steps'' = Some steps
           \<and> py_getitem steps (VInt (- 1)) = Inr final
           \<and> py_getitem final (VInt 1) = Inr class_name
           \<and> py_getitem final (VInt 0) = Inr (VStr key)
           \<and> map_of d key = Some defaults"
proof -
  from assms obtain steps where s: "py_getitem spec (VStr ''steps'') = Inr steps"
    unfolding register_fitter_def andThen_Inr_iff by blast
  then obtain d where d: "spec = VDict d" "map_of d ''steps'' = Some steps"
    unfolding py_getitem_str_key by blast
  from assms s obtain final where l: "py_getitem steps (VInt (- 1)) = Inr final"
    unfolding register_fitter_def by (auto simp: andThen_Inr_iff)
  from assms s l obtain class_name where c: "py_getitem final (VInt 1) = Inr class_name"
    unfolding register_fitter_def by (auto simp: andThen_Inr_iff)
  from assms s l c obtain key where k: "py_getitem final (VInt 0) = Inr key"
    unfolding register_fitter_def by (auto simp: andThen_Inr_iff)
  from assms s l c k obtain defaults where df: "py_getitem spec key = Inr defaults"
    unfolding register_fitter_def by (auto simp: andThen_Inr_iff)
  then obtain ks where "key = VStr ks" "map_of d ks = Some defaults"
    unfolding d py_getitem_dict_Inr by blast
  with d l c k show ?thesis by blast
qed






section \<open>Decoding the keyword arguments and handing them to the constructor\<close>






section \<open>Facts about the loop over the constructor's parameters\<close>



















lemma register_fitter_Inr_iff:
  "register_fitter lib name spec plugin = Inr plugin' \<longleftrightarrow>
     (\<exists>steps final class_name key defaults ps sig cn.
        py_getitem spec (VStr ''steps'') = Inr steps
        \<and> py_getitem steps (VInt (- 1)) = Inr final
        \<and> py_getitem final (VInt 1) = Inr class_name
        \<and> py_getitem final (VInt 0) = Inr key
        \<and> py_getitem spec key = Inr defaults
        \<and> exposed_parameters lib class_name defaults = Inr (ps, sig)
        \<and> class_name = VStr cn
        \<and> plugin' = plugin @ fitter_registrations name cn ps
             (Generic_fitter \<lparr>f_spec = spec, f_signature = sig,
                              f_return_annotation = Some (T_other ''dict'')\<rparr>))"
  unfolding register_fitter_def exposed_parameters_def
  by (auto simp: andThen_Inr_iff Let_def case_VStr_Inr_iff split: prod.splits)

section \<open>What a successful registration has computed\<close>



section \<open>The exposed signature\<close>




section \<open>The workflow parameters\<close>



section \<open>The round trip of the encoded defaults\<close>




section \<open>The actions registered for the predefined specifications\<close>

lemma register_fitter_appends:
  assumes "register_fitter lib name spec plugin = Inr plugin'"
  shows "\<exists>cn ps g. plugin' = plugin @ fitter_registrations name cn ps g
           \<and> captured_spec g = Some spec"
proof -
  from assms obtain ps sig cn where
    "plugin' = plugin @ fitter_registrations name cn ps
       (Generic_fitter \<lparr>f_spec = spec, f_signature = sig,
                        f_return_annotation = Some (T_other ''dict'')\<rparr>)"
    unfolding register_fitter_Inr_iff by blast
  then show ?thesis by force
qed

lemma register_all_appends:
  "register_all lib fitters plugin = Inr plugin' \<Longrightarrow>
     \<exists>new gs. plugin' = plugin @ new
       \<and> map r_function new = concat (map (\<lambda>g. [g, g]) gs)
       \<and> map captured_spec gs = map (\<lambda>(name, spec). Some spec) fitters
       \<and> map r_function_name new =
           concat (map (\<lambda>(name, spec). [''fit_classifier_'' @ name,
                                         ''fit_classifier_'' @ name @ ''_paired_end'']) fitters)
       \<and> map r_inputs new =
           concat (map (\<lambda>(name, spec).
             [[(''reference_reads'', ''FeatureData[Sequence]''),
               (''reference_taxonomy'', ''ReferenceFeatures[SSU]'')],
              [(''reference_reads'', ''FeatureData[PairedEndSequence]''),
               (''reference_taxonomy'', ''ReferenceFeatures[SSU]'')]]) fitters)"
proof (induction fitters arbitrary: plugin)
  case Nil
  then have "plugin' = plugin @ []" by simp
  moreover have "map captured_spec [] = map (\<lambda>(name, spec). Some spec) []" by simp
  ultimately show ?case by fastforce
next
  case (Cons entry fitters)
  obtain name spec where entry: "entry = (name, spec)" by (cases entry)
  from Cons.prems obtain plugin1 where
    one: "register_fitter lib name spec plugin = Inr plugin1"
    and rest: "register_all lib fitters plugin1 = Inr plugin'"
    unfolding entry by (auto simp: andThen_Inr_iff)
  from register_fitter_appends [OF one] obtain cn ps g where
    p1: "plugin1 = plugin @ fitter_registrations name cn ps g"
    and g: "captured_spec g = Some spec"
    by blast
  from Cons.IH [OF rest] obtain new gs where
    ih: "plugin' = plugin1 @ new"
      "map r_function new = concat (map (\<lambda>g. [g, g]) gs)"
      "map captured_spec gs = map (\<lambda>(name, spec). Some spec) fitters"
      "map r_function_name new =
           concat (map (\<lambda>(name, spec). [''fit_classifier_'' @ name,
                                         ''fit_classifier_'' @ name @ ''_paired_end'']) fitters)"
      "map r_inputs new =
           concat (map (\<lambda>(name, spec).
             [[(''reference_reads'', ''FeatureData[Sequence]''),
               (''reference_taxonomy'', ''ReferenceFeatures[SSU]'')],
              [(''reference_reads'', ''FeatureData[PairedEndSequence]''),
               (''reference_taxonomy'', ''ReferenceFeatures[SSU]'')]]) fitters)"
    by (elim exE conjE) (rule that; assumption)
  let ?new = "fitter_registrations name cn ps g @ new"
  have a: "plugin' = plugin @ ?new" using p1 ih(1) by simp
  have b: "map r_function ?new = concat (map (\<lambda>g. [g, g]) (g # gs))"
    using ih(2) by (simp add: fitter_registrations_def)
  have c: "map captured_spec (g # gs) = map (\<lambda>(name, spec). Some spec) (entry # fitters)"
    using ih(3) g entry by simp
  have d: "map r_function_name ?new =
           concat (map (\<lambda>(name, spec). [''fit_classifier_'' @ name,
                                         ''fit_classifier_'' @ name @ ''_paired_end''])
                     (entry # fitters))"
    using ih(4) entry by (simp add: fitter_registrations_def)
  have e: "map r_inputs ?new =
           concat (map (\<lambda>(name, spec).
             [[(''reference_reads'', ''FeatureData[Sequence]''),
               (''reference_taxonomy'', ''ReferenceFeatures[SSU]'')],
              [(''reference_reads'', ''FeatureData[PairedEndSequence]''),
               (''reference_taxonomy'', ''ReferenceFeatures[SSU]'')]]) (entry # fitters))"
    using ih(5) entry by (simp add: fitter_registrations_def)
  from a b c d e show ?case by blast
qed

lemma length_concat_pairs: "length (concat (map (\<lambda>g. [g, g]) gs)) = 2 * length gs"
  by (induction gs) simp_all

text \<open>
  C4, as first stated, fails: \<open>_register_fitter\<close> ends in two calls of
  \<open>register_function\<close>, so the loop over a list of one specification leaves two
  registered actions, not one.
\<close>

theorem one_action_per_entry_counterexample:
  "\<not> one_action_per_entry toy_lib [(''bayes'', toy_spec)]
   \<and> map_sum id (map r_function_name) (register_all toy_lib [(''bayes'', toy_spec)] []) =
       Inr [''fit_classifier_bayes'', ''fit_classifier_bayes_paired_end'']"
  by code_simp

text \<open>
  C4, amended. For every entry \<open>(name, spec)\<close> of the predefined list, exactly one fitter
  is synthesized, a closure over \<open>spec\<close>, and it is registered as exactly two actions:
  first as \<open>fit_classifier_<name>\<close> for single-end reads, then as
  \<open>fit_classifier_<name>_paired_end\<close> for paired-end reads. The registrations are made in
  the order of the list, after those the plugin already had, which stay as they were.
\<close>

theorem two_actions_per_entry:
  assumes "register_all lib fitters plugin = Inr plugin'"
  shows "length plugin' = length plugin + 2 * length fitters
     \<and> take (length plugin) plugin' = plugin
     \<and> (\<exists>gs. length gs = length fitters
           \<and> map r_function (drop (length plugin) plugin') = concat (map (\<lambda>g. [g, g]) gs)
           \<and> map captured_spec gs = map (\<lambda>(name, spec). Some spec) fitters)
     \<and> map r_function_name (drop (length plugin) plugin') =
         concat (map (\<lambda>(name, spec). [''fit_classifier_'' @ name,
                                       ''fit_classifier_'' @ name @ ''_paired_end'']) fitters)
     \<and> map r_inputs (drop (length plugin) plugin') =
         concat (map (\<lambda>(name, spec).
           [[(''reference_reads'', ''FeatureData[Sequence]''),
             (''reference_taxonomy'', ''ReferenceFeatures[SSU]'')],
            [(''reference_reads'', ''FeatureData[PairedEndSequence]''),
             (''reference_taxonomy'', ''ReferenceFeatures[SSU]'')]]) fitters)"
proof -
  from register_all_appends [OF assms] obtain new gs where
    h: "plugin' = plugin @ new"
      "map r_function new = concat (map (\<lambda>g. [g, g]) gs)"
      "map captured_spec gs = map (\<lambda>(name, spec). Some spec) fitters"
      "map r_function_name new =
           concat (map (\<lambda>(name, spec). [''fit_classifier_'' @ name,
                                         ''fit_classifier_'' @ name @ ''_paired_end'']) fitters)"
      "map r_inputs new =
           concat (map (\<lambda>(name, spec).
             [[(''reference_reads'', ''FeatureData[Sequence]''),
               (''reference_taxonomy'', ''ReferenceFeatures[SSU]'')],
              [(''reference_reads'', ''FeatureData[PairedEndSequence]''),
               (''reference_taxonomy'', ''ReferenceFeatures[SSU]'')]]) fitters)"
    by (elim exE conjE) (rule that; assumption)
  from h(3) have len: "length gs = length fitters" by (rule map_eq_imp_length_eq)
  have "length new = length (map r_function new)" by simp
  also have "\<dots> = 2 * length gs" unfolding h(2) by (rule length_concat_pairs)
  finally have n: "length new = 2 * length fitters" using len by simp
  have dr: "drop (length plugin) plugin' = new" and tk: "take (length plugin) plugin' = plugin"
    using h(1) by simp_all
  from n h(1) have "length plugin' = length plugin + 2 * length fitters" by simp
  with tk len h(2-5) show ?thesis unfolding dr by blast
qed

theorem two_actions_per_entry_witness:
  "\<exists>plugin'. register_all toy_lib [(''bayes'', toy_spec), (''hasher'', toy_hasher_spec)] []
       = Inr plugin'
     \<and> length plugin' = 4
     \<and> map r_function_name plugin' =
         [''fit_classifier_bayes'', ''fit_classifier_bayes_paired_end'',
          ''fit_classifier_hasher'', ''fit_classifier_hasher_paired_end'']"
proof -
  let ?fs = "[(''bayes'', toy_spec), (''hasher'', toy_hasher_spec)]"
  have "\<not> isl (register_all toy_lib ?fs [])" by code_simp
  then obtain plugin' where reg: "register_all toy_lib ?fs [] = Inr plugin'"
    by (cases "register_all toy_lib ?fs []") simp_all
  from two_actions_per_entry [OF reg]
  have "length plugin' = 4" and "map r_function_name plugin' =
         [''fit_classifier_bayes'', ''fit_classifier_bayes_paired_end'',
          ''fit_classifier_hasher'', ''fit_classifier_hasher_paired_end'']"
    by simp_all
  with reg show ?thesis by (intro exI [of _ plugin'] conjI)
qed

section \<open>Where the exceptions come from\<close>

















end
